theory Spec2Isabelle
  imports Main "HOL-Library.Sublist"
begin

section \<open>Dates, as the Python library computes them\<close>

text \<open>
  A \<open>datetime.date\<close> is represented by its proleptic Gregorian ordinal
  (\<open>date.toordinal()\<close>): day 1 is 0001-01-01 and the last date, 9999-12-31, has
  ordinal 3652059.  A date string in \<open>YYYY-MM-DD\<close> form is represented by the
  date it denotes.  The functions below follow CPython's \<open>_ymd2ord\<close>,
  \<open>_ord2ymd\<close> and \<open>date.weekday\<close>.
\<close>

type_synonym date = int

definition MINORD :: int where
  "MINORD = 1"

definition MAXORD :: int where
  "MAXORD = 3652059"

datatype exn =
    HttpError string
  | OtherException string
  | AttributeError string
  | KeyError string
  | TypeError string
  | OverflowError

definition is_leap :: "int \<Rightarrow> bool" where
  "is_leap year = (year mod 4 = 0 \<and> (year mod 100 \<noteq> 0 \<or> year mod 400 = 0))"

definition days_before_year :: "int \<Rightarrow> int" where
  "days_before_year year =
     (let y = year - 1 in y * 365 + y div 4 - y div 100 + y div 400)"

definition DAYS_IN_MONTH :: "int list" where
  "DAYS_IN_MONTH = [-1, 31, 28, 31, 30, 31, 30, 31, 31, 30, 31, 30, 31]"

definition DAYS_BEFORE_MONTH :: "int list" where
  "DAYS_BEFORE_MONTH = [-1, 0, 31, 59, 90, 120, 151, 181, 212, 243, 273, 304, 334]"

definition days_before_month :: "int \<Rightarrow> int \<Rightarrow> int" where
  "days_before_month year month =
     DAYS_BEFORE_MONTH ! nat month + (if month > 2 \<and> is_leap year then 1 else 0)"

definition ymd2ord :: "int \<Rightarrow> int \<Rightarrow> int \<Rightarrow> date" where
  "ymd2ord year month day =
     days_before_year year + days_before_month year month + day"

definition ord2ymd :: "date \<Rightarrow> int \<times> int \<times> int" where
  "ord2ymd n0 =
     (let n = n0 - 1;
          n400 = n div 146097; n = n mod 146097;
          year = n400 * 400 + 1;
          n100 = n div 36524; n = n mod 36524;
          n4 = n div 1461; n = n mod 1461;
          n1 = n div 365; n = n mod 365;
          year = year + n100 * 100 + n4 * 4 + n1
      in if n1 = 4 \<or> n100 = 4 then (year - 1, 12, 31)
         else
           let leapyear = (n1 = 3 \<and> (n4 \<noteq> 24 \<or> n100 = 3));
               month = (n + 50) div 32;
               preceding = DAYS_BEFORE_MONTH ! nat month
                           + (if month > 2 \<and> leapyear then 1 else 0)
           in if preceding > n
              then
                let month = month - 1;
                    preceding = preceding
                      - (DAYS_IN_MONTH ! nat month
                         + (if month = 2 \<and> leapyear then 1 else 0))
                in (year, month, n - preceding + 1)
              else (year, month, n - preceding + 1))"

definition weekday :: "date \<Rightarrow> int" where
  "weekday d = (d + 6) mod 7"

text \<open>\<open>date + timedelta(days=n)\<close>: the result must stay a date, else OverflowError.\<close>

definition date_add_days :: "date \<Rightarrow> int \<Rightarrow> exn + date" where
  "date_add_days d n =
     (if MINORD \<le> d + n \<and> d + n \<le> MAXORD then Inr (d + n) else Inl OverflowError)"

text \<open>\<open>d.replace(day=1)\<close>.\<close>

definition replace_day1 :: "date \<Rightarrow> date" where
  "replace_day1 d = (case ord2ymd d of (y, m, _) \<Rightarrow> ymd2ord y m 1)"

text \<open>
  An aware timestamp is represented by its instant: seconds since the midnight
  (UTC) that starts ordinal day 0.  A \<open>tzinfo\<close> gives the UTC offset in seconds
  in force at an instant.
\<close>

type_synonym instant = int

type_synonym tzinfo = "instant \<Rightarrow> int"

definition midnight_utc :: "date \<Rightarrow> instant" where
  "midnight_utc d = d * 86400"

definition end_of_day_utc :: "date \<Rightarrow> instant" where
  "end_of_day_utc d = d * 86400 + 86399"

text \<open>\<open>t.astimezone(tz).date()\<close>.\<close>

definition astimezone_date :: "tzinfo \<Rightarrow> instant \<Rightarrow> exn + date" where
  "astimezone_date z t =
     (let d = (t + z t) div 86400
      in if MINORD \<le> d \<and> d \<le> MAXORD then Inr d else Inl OverflowError)"

section \<open>Strings\<close>

text \<open>\<open>s.split("@")[0]\<close>: the text before the first \<open>@\<close>.\<close>

definition split_at_0 :: "string \<Rightarrow> string" where
  "split_at_0 s = takeWhile (\<lambda>c. c \<noteq> CHR ''@'') s"

text \<open>\<open>str.isspace\<close> on the ASCII range, and \<open>s.strip()\<close>.\<close>

definition is_space :: "char \<Rightarrow> bool" where
  "is_space c = (c \<in> set [CHR '' '', CHR 0x09, CHR 0x0A, CHR 0x0B, CHR 0x0C, CHR 0x0D,
                            CHR 0x1C, CHR 0x1D, CHR 0x1E, CHR 0x1F])"

definition strip :: "string \<Rightarrow> string" where
  "strip s = rev (dropWhile is_space (rev (dropWhile is_space s)))"

text \<open>\<open>sub in s\<close>.\<close>

fun str_contains :: "string \<Rightarrow> string \<Rightarrow> bool" where
  "str_contains [] sub = (sub = [])"
| "str_contains (c # cs) sub = (prefix sub (c # cs) \<or> str_contains cs sub)"

text \<open>The f-string \<open>f"{username} {ooo_pattern}"\<close>.\<close>

definition fingerprint :: "string \<Rightarrow> string \<Rightarrow> string" where
  "fingerprint username ooo_pattern = username @ '' '' @ ooo_pattern"

section \<open>Configuration, backend resources and the world\<close>

text \<open>The \<open>DEFAULT\<close> section of \<open>config.ini\<close>; a key that is absent reads as None.\<close>

type_synonym config = "string \<rightharpoonup> string"

definition get_default_config :: "config \<Rightarrow> string \<Rightarrow> string option" where
  "get_default_config cfg key = cfg key"

record calendar =
  cal_id :: "string option"
  cal_summary :: "string option"

record time_info =
  ti_dateTime :: "instant option"
  ti_date :: "date option"
  ti_timeZone :: "string option"

record event =
  ev_id :: "string option"
  ev_summary :: "string option"
  ev_description :: "string option"
  ev_start :: "time_info option"
  ev_end :: "time_info option"
  ev_transparency :: "string option"
  ev_visibility :: "string option"
  ev_status :: "string option"
  ev_eventType :: "string option"

record list_request =
  lr_calendarId :: "string option"
  lr_timeMin :: instant
  lr_timeMax :: instant
  lr_maxResults :: "int option"
  lr_singleEvents :: "bool option"
  lr_orderBy :: "string option"
  lr_q :: string

text \<open>
  The authenticated service object.  The calendar backend is an external system:
  each method takes the backend's state and the call's arguments and gives the
  response (or the exception that \<open>execute()\<close> raises) and the backend's next state.
  A response that is a JSON object is a record of the keys the program reads;
  \<open>calendars().get\<close> may answer an empty (falsy) object, \<open>None\<close> here, and the two
  list calls may answer without an \<open>items\<close> key, \<open>None\<close> here.
\<close>

record 'b service =
  calendars_get :: "'b \<Rightarrow> string option \<Rightarrow> (exn + calendar option) \<times> 'b"
  calendarList_list :: "'b \<Rightarrow> (exn + calendar list option) \<times> 'b"
  events_list :: "'b \<Rightarrow> list_request \<Rightarrow> (exn + event list option) \<times> 'b"
  events_insert :: "'b \<Rightarrow> string option \<Rightarrow> event \<Rightarrow> (exn + event) \<times> 'b"
  events_delete :: "'b \<Rightarrow> string option \<Rightarrow> string \<Rightarrow> (exn + unit) \<times> 'b"

datatype api_call =
    CalendarsGet "string option"
  | CalendarListList
  | EventsList list_request
  | EventsInsert "string option" event
  | EventsDelete "string option" string

text \<open>What \<open>console.print\<close> is given, one constructor per message of the program.\<close>

datatype message =
    ErrorExn exn
  | ErrorCalendarNotFound "string option"
  | WarnAlreadyExists date date "string option"
  | EventCreated "string" date date "string option"
  | AnErrorOccurred exn
  | UnexpectedError exn
  | OOOWeekend string
  | OOOToday string
  | NotOOOToday string
  | NoUpcoming
  | EventLine date date string string string "string option"
  | DisableSuccess string "string option"
  | DisableNotFound string "string option"

text \<open>
  The world a run acts on: the backend's state, the log of the API calls issued so
  far (oldest first) and the console's lines (oldest first).
\<close>

record 'b world =
  backend :: 'b
  calls :: "api_call list"
  console :: "message list"

text \<open>The clocks and the time-zone database the program reads.\<close>

record env =
  now_local_date :: date
  utcnow_date :: date
  gettz :: "string \<Rightarrow> tzinfo option"
  system_tz :: tzinfo

definition console_print :: "message \<Rightarrow> 'b world \<Rightarrow> 'b world" where
  "console_print m w = w\<lparr>console := console w @ [m]\<rparr>"

definition api_calendars_get ::
  "'b service \<Rightarrow> string option \<Rightarrow> 'b world \<Rightarrow> (exn + calendar option) \<times> 'b world" where
  "api_calendars_get svc name w =
     (case calendars_get svc (backend w) name of
        (r, b) \<Rightarrow> (r, w\<lparr>backend := b, calls := calls w @ [CalendarsGet name]\<rparr>))"

definition api_calendarList_list ::
  "'b service \<Rightarrow> 'b world \<Rightarrow> (exn + calendar list option) \<times> 'b world" where
  "api_calendarList_list svc w =
     (case calendarList_list svc (backend w) of
        (r, b) \<Rightarrow> (r, w\<lparr>backend := b, calls := calls w @ [CalendarListList]\<rparr>))"

definition api_events_list ::
  "'b service \<Rightarrow> list_request \<Rightarrow> 'b world \<Rightarrow> (exn + event list option) \<times> 'b world" where
  "api_events_list svc req w =
     (case events_list svc (backend w) req of
        (r, b) \<Rightarrow> (r, w\<lparr>backend := b, calls := calls w @ [EventsList req]\<rparr>))"

definition api_events_insert ::
  "'b service \<Rightarrow> string option \<Rightarrow> event \<Rightarrow> 'b world \<Rightarrow> (exn + event) \<times> 'b world" where
  "api_events_insert svc cid body w =
     (case events_insert svc (backend w) cid body of
        (r, b) \<Rightarrow> (r, w\<lparr>backend := b, calls := calls w @ [EventsInsert cid body]\<rparr>))"

definition api_events_delete ::
  "'b service \<Rightarrow> string option \<Rightarrow> string \<Rightarrow> 'b world \<Rightarrow> (exn + unit) \<times> 'b world" where
  "api_events_delete svc cid eid w =
     (case events_delete svc (backend w) cid eid of
        (r, b) \<Rightarrow> (r, w\<lparr>backend := b, calls := calls w @ [EventsDelete cid eid]\<rparr>))"

text \<open>Python truthiness of an optional string: None and the empty string are falsy.\<close>

definition truthy :: "string option \<Rightarrow> bool" where
  "truthy s = (case s of None \<Rightarrow> False | Some t \<Rightarrow> t \<noteq> [])"

section \<open>get\_calendar\_id\_by\_name\<close>

text \<open>
  The scan of \<open>calendar_list["items"]\<close>: \<open>Inr (Some i)\<close> is \<open>return calendar["id"]\<close>,
  \<open>Inr None\<close> is the loop running out, \<open>Inl\<close> a KeyError of a missing key.
\<close>

fun scan_calendars :: "string option \<Rightarrow> calendar list \<Rightarrow> exn + string option" where
  "scan_calendars name [] = Inr None"
| "scan_calendars name (c # cs) =
     (case cal_summary c of
        None \<Rightarrow> Inl (KeyError ''summary'')
      | Some s \<Rightarrow>
          if Some s = name
          then (case cal_id c of None \<Rightarrow> Inl (KeyError ''id'') | Some i \<Rightarrow> Inr (Some i))
          else scan_calendars name cs)"

text \<open>The fallback: the body of the outer \<open>except Exception\<close>, with its own try.\<close>

definition calendar_fallback ::
  "'b service \<Rightarrow> string option \<Rightarrow> 'b world \<Rightarrow> string option \<times> 'b world" where
  "calendar_fallback svc name w =
     (case api_calendarList_list svc w of
        (Inl e2, w1) \<Rightarrow>
          (None, console_print (ErrorCalendarNotFound name) (console_print (ErrorExn e2) w1))
      | (Inr None, w1) \<Rightarrow>
          (None, console_print (ErrorCalendarNotFound name)
                   (console_print (ErrorExn (KeyError ''items'')) w1))
      | (Inr (Some items), w1) \<Rightarrow>
          (case scan_calendars name items of
             Inl e2 \<Rightarrow>
               (None, console_print (ErrorCalendarNotFound name) (console_print (ErrorExn e2) w1))
           | Inr (Some i) \<Rightarrow> (Some i, w1)
           | Inr None \<Rightarrow> (None, console_print (ErrorCalendarNotFound name) w1)))"

definition get_calendar_id_by_name ::
  "'b service \<Rightarrow> string option \<Rightarrow> 'b world \<Rightarrow> string option \<times> 'b world" where
  "get_calendar_id_by_name svc team_calendar_name w =
     (case api_calendars_get svc team_calendar_name w of
        (Inl e, w1) \<Rightarrow> calendar_fallback svc team_calendar_name w1
      | (Inr None, w1) \<Rightarrow> (None, console_print (ErrorCalendarNotFound team_calendar_name) w1)
      | (Inr (Some c), w1) \<Rightarrow>
          (case cal_id c of
             Some i \<Rightarrow> (Some i, w1)
           | None \<Rightarrow> calendar_fallback svc team_calendar_name w1))"

section \<open>get\_date\_from\_event\<close>

datatype time_key = Start | End

definition event_time :: "event \<Rightarrow> time_key \<Rightarrow> time_info option" where
  "event_time ev k = (case k of Start \<Rightarrow> ev_start ev | End \<Rightarrow> ev_end ev)"

definition key_name :: "time_key \<Rightarrow> string" where
  "key_name k = (case k of Start \<Rightarrow> ''start'' | End \<Rightarrow> ''end'')"

text \<open>
  \<open>astimezone(None)\<close> converts to the system's local zone, which is what happens
  when \<open>tz.gettz\<close> does not know the name.  A \<open>time_info\<close> with neither key makes the
  function fall off its end and return None.
\<close>

definition get_date_from_event :: "env \<Rightarrow> event \<Rightarrow> time_key \<Rightarrow> exn + date option" where
  "get_date_from_event en ev time_key =
     (case event_time ev time_key of
        None \<Rightarrow> Inl (KeyError (key_name time_key))
      | Some time_info \<Rightarrow>
          (case ti_dateTime time_info of
             Some t \<Rightarrow>
               (case ti_timeZone time_info of
                  None \<Rightarrow> Inl (KeyError ''timeZone'')
                | Some zname \<Rightarrow>
                    (let local_tz = (case gettz en zname of None \<Rightarrow> system_tz en | Some z \<Rightarrow> z)
                     in case astimezone_date local_tz t of
                          Inl e \<Rightarrow> Inl e
                        | Inr d \<Rightarrow> Inr (Some d)))
           | None \<Rightarrow>
               (case ti_date time_info of
                  Some d \<Rightarrow> Inr (Some d)
                | None \<Rightarrow> Inr None)))"

section \<open>The configured person\<close>

text \<open>
  \<open>get_default_config("default_personal_calendar").split("@")[0]\<close> and
  \<open>get_default_config("ooo_pattern").strip()\<close>: a missing key gives None, and the
  method call on None raises AttributeError.
\<close>

definition config_username :: "config \<Rightarrow> exn + string" where
  "config_username cfg =
     (case get_default_config cfg ''default_personal_calendar'' of
        None \<Rightarrow> Inl (AttributeError ''split'')
      | Some s \<Rightarrow> Inr (split_at_0 s))"

definition config_ooo_pattern :: "config \<Rightarrow> exn + string" where
  "config_ooo_pattern cfg =
     (case get_default_config cfg ''ooo_pattern'' of
        None \<Rightarrow> Inl (AttributeError ''strip'')
      | Some s \<Rightarrow> Inr (strip s))"

section \<open>get\_upcoming\_ooo\_events\<close>

text \<open>The last day of the month after today's, as the three chained expressions compute it.\<close>

definition last_day_next_month :: "date \<Rightarrow> exn + date" where
  "last_day_next_month today =
     (case date_add_days (replace_day1 today) 32 of
        Inl e \<Rightarrow> Inl e
      | Inr a \<Rightarrow>
          (let first_day_next_month = replace_day1 a
           in case date_add_days first_day_next_month 32 of
                Inl e \<Rightarrow> Inl e
              | Inr b \<Rightarrow> date_add_days (replace_day1 b) (- 1)))"

definition upcoming_request :: "string option \<Rightarrow> date \<Rightarrow> date \<Rightarrow> int \<Rightarrow> string \<Rightarrow> list_request" where
  "upcoming_request calendar_id today last_day max_results event_summary =
     \<lparr>lr_calendarId = calendar_id,
      lr_timeMin = midnight_utc today,
      lr_timeMax = end_of_day_utc last_day,
      lr_maxResults = Some max_results,
      lr_singleEvents = Some True,
      lr_orderBy = Some ''startTime'',
      lr_q = event_summary\<rparr>"

definition get_upcoming_ooo_events ::
  "'b service \<Rightarrow> config \<Rightarrow> env \<Rightarrow> string option \<Rightarrow> int \<Rightarrow> 'b world
     \<Rightarrow> (exn + event list) \<times> 'b world" where
  "get_upcoming_ooo_events svc cfg en team_calendar_name max_results w =
     (case get_calendar_id_by_name svc team_calendar_name w of
        (calendar_id, w1) \<Rightarrow>
          if \<not> truthy calendar_id
          then (Inr [], console_print (ErrorCalendarNotFound team_calendar_name) w1)
          else
            (case last_day_next_month (utcnow_date en) of
               Inl e \<Rightarrow> (Inl e, w1)
             | Inr last_day \<Rightarrow>
                 (case config_username cfg of
                    Inl e \<Rightarrow> (Inl e, w1)
                  | Inr username \<Rightarrow>
                      (case config_ooo_pattern cfg of
                         Inl e \<Rightarrow> (Inl e, w1)
                       | Inr ooo_pattern \<Rightarrow>
                           (let event_summary = fingerprint username ooo_pattern
                            in case api_events_list svc
                                      (upcoming_request calendar_id (utcnow_date en) last_day
                                         max_results event_summary) w1 of
                                 (Inl (HttpError m), w2) \<Rightarrow>
                                   (Inr [], console_print (AnErrorOccurred (HttpError m)) w2)
                               | (Inl e, w2) \<Rightarrow> (Inr [], console_print (UnexpectedError e) w2)
                               | (Inr None, w2) \<Rightarrow> (Inr [], w2)
                               | (Inr (Some items), w2) \<Rightarrow> (Inr items, w2))))))"

section \<open>event\_exists and enable\_out\_of\_office\<close>

definition exists_request :: "string option \<Rightarrow> date \<Rightarrow> date \<Rightarrow> string \<Rightarrow> list_request" where
  "exists_request calendar_id start_date end_date event_summary =
     \<lparr>lr_calendarId = calendar_id,
      lr_timeMin = midnight_utc start_date,
      lr_timeMax = midnight_utc end_date,
      lr_maxResults = None,
      lr_singleEvents = None,
      lr_orderBy = None,
      lr_q = event_summary\<rparr>"

text \<open>\<open>event.get("summary") == event_summary\<close>.\<close>

definition summary_equals :: "string \<Rightarrow> event \<Rightarrow> bool" where
  "summary_equals event_summary ev = (ev_summary ev = Some event_summary)"

text \<open>\<open>event_summary in event.get("summary", "")\<close>.\<close>

definition summary_contains :: "string \<Rightarrow> event \<Rightarrow> bool" where
  "summary_contains event_summary ev =
     str_contains (case ev_summary ev of None \<Rightarrow> [] | Some s \<Rightarrow> s) event_summary"

definition event_exists ::
  "'b service \<Rightarrow> string option \<Rightarrow> date \<Rightarrow> date \<Rightarrow> string \<Rightarrow> 'b world
     \<Rightarrow> (exn + bool) \<times> 'b world" where
  "event_exists svc calendar_id start_date end_date event_summary w =
     (case api_events_list svc (exists_request calendar_id start_date end_date event_summary) w of
        (Inl e, w1) \<Rightarrow> (Inl e, w1)
      | (Inr None, w1) \<Rightarrow> (Inr (list_ex (summary_equals event_summary) []), w1)
      | (Inr (Some existing_events), w1) \<Rightarrow>
          (Inr (list_ex (summary_equals event_summary) existing_events), w1))"

definition ooo_event :: "string \<Rightarrow> date \<Rightarrow> date \<Rightarrow> string option \<Rightarrow> event" where
  "ooo_event event_summary start_date adjusted_end_date tzname =
     \<lparr>ev_id = None,
      ev_summary = Some event_summary,
      ev_description = Some ''Out of Office'',
      ev_start = Some \<lparr>ti_dateTime = None, ti_date = Some start_date, ti_timeZone = tzname\<rparr>,
      ev_end = Some \<lparr>ti_dateTime = None, ti_date = Some adjusted_end_date, ti_timeZone = tzname\<rparr>,
      ev_transparency = Some ''opaque'',
      ev_visibility = Some ''default'',
      ev_status = Some ''confirmed'',
      ev_eventType = Some ''default''\<rparr>"

text \<open>The part of \<open>enable_out_of_office\<close> after the duplicate check.\<close>

definition create_ooo_event ::
  "'b service \<Rightarrow> string option \<Rightarrow> event \<Rightarrow> date \<Rightarrow> date \<Rightarrow> 'b world
     \<Rightarrow> (exn + unit) \<times> 'b world" where
  "create_ooo_event svc team_calendar_name ev start_date end_date w =
     (case get_calendar_id_by_name svc team_calendar_name w of
        (calendar_id, w1) \<Rightarrow>
          if \<not> truthy calendar_id
          then (Inr (), console_print (ErrorCalendarNotFound team_calendar_name) w1)
          else
            (case api_events_insert svc calendar_id ev w1 of
               (Inl e, w2) \<Rightarrow> (Inr (), console_print (ErrorExn e) w2)
             | (Inr created_event, w2) \<Rightarrow>
                 (case ev_id created_event of
                    None \<Rightarrow> (Inr (), console_print (ErrorExn (KeyError ''id'')) w2)
                  | Some i \<Rightarrow>
                      (Inr (), console_print
                                 (EventCreated i start_date end_date team_calendar_name) w2))))"

definition enable_out_of_office ::
  "'b service \<Rightarrow> config \<Rightarrow> date \<Rightarrow> date \<Rightarrow> 'b world \<Rightarrow> (exn + unit) \<times> 'b world" where
  "enable_out_of_office svc cfg start_date end_date w =
     (let team_calendar_name = get_default_config cfg ''default_team_calendar'';
          tzname = get_default_config cfg ''timezone''
      in case config_username cfg of
           Inl e \<Rightarrow> (Inl e, w)
         | Inr username \<Rightarrow>
             (case config_ooo_pattern cfg of
                Inl e \<Rightarrow> (Inl e, w)
              | Inr ooo_pattern \<Rightarrow>
                  (let event_summary = fingerprint username ooo_pattern
                   in case get_calendar_id_by_name svc team_calendar_name w of
                        (team_calendar_id, w1) \<Rightarrow>
                          (case date_add_days end_date 1 of
                             Inl e \<Rightarrow> (Inl e, w1)
                           | Inr adjusted_end_date \<Rightarrow>
                               (case event_exists svc team_calendar_id start_date
                                       adjusted_end_date event_summary w1 of
                                  (Inl e, w2) \<Rightarrow> (Inl e, w2)
                                | (Inr True, w2) \<Rightarrow>
                                    (Inr (), console_print
                                       (WarnAlreadyExists start_date end_date team_calendar_name) w2)
                                | (Inr False, w2) \<Rightarrow>
                                    create_ooo_event svc team_calendar_name
                                      (ooo_event event_summary start_date adjusted_end_date tzname)
                                      start_date end_date w2)))))"

section \<open>is\_ooo\_today\<close>

text \<open>
  \<open>start <= today <= end\<close> on what \<open>get_date_from_event\<close> returned: comparing
  None with a date raises TypeError, and the second comparison is made only when
  the first holds.
\<close>

definition in_range :: "date option \<Rightarrow> date \<Rightarrow> date option \<Rightarrow> exn + bool" where
  "in_range start today end_d =
     (case start of
        None \<Rightarrow> Inl (TypeError ''<='')
      | Some s \<Rightarrow>
          if s \<le> today
          then (case end_d of None \<Rightarrow> Inl (TypeError ''<='') | Some e \<Rightarrow> Inr (today \<le> e))
          else Inr False)"

text \<open>
  The loop over \<open>team_events\<close>: \<open>Inr True\<close> when an event made the method report and
  return, \<open>Inr False\<close> when the list ran out.
\<close>

fun ooo_today_loop :: "env \<Rightarrow> string \<Rightarrow> date \<Rightarrow> event list \<Rightarrow> exn + bool" where
  "ooo_today_loop en event_summary today [] = Inr False"
| "ooo_today_loop en event_summary today (ev # evs) =
     (if summary_contains event_summary ev
      then
        (case get_date_from_event en ev Start of
           Inl e \<Rightarrow> Inl e
         | Inr start \<Rightarrow>
             (case get_date_from_event en ev End of
                Inl e \<Rightarrow> Inl e
              | Inr end_d \<Rightarrow>
                  (case in_range start today end_d of
                     Inl e \<Rightarrow> Inl e
                   | Inr True \<Rightarrow> Inr True
                   | Inr False \<Rightarrow> ooo_today_loop en event_summary today evs)))
      else ooo_today_loop en event_summary today evs)"

definition is_ooo_today ::
  "'b service \<Rightarrow> config \<Rightarrow> env \<Rightarrow> string option \<Rightarrow> 'b world \<Rightarrow> (exn + unit) \<times> 'b world" where
  "is_ooo_today svc cfg en team_member w =
     (let team_calendar_name = get_default_config cfg ''default_team_calendar''
      in case get_upcoming_ooo_events svc cfg en team_calendar_name 100 w of
           (Inl e, w1) \<Rightarrow> (Inl e, w1)
         | (Inr team_events, w1) \<Rightarrow>
             (case (case team_member of
                     Some t \<Rightarrow> if t \<noteq> [] then Inr t else config_username cfg
                   | None \<Rightarrow> config_username cfg) of
                Inl e \<Rightarrow> (Inl e, w1)
              | Inr username \<Rightarrow>
                  (case config_ooo_pattern cfg of
                     Inl e \<Rightarrow> (Inl e, w1)
                   | Inr ooo_pattern \<Rightarrow>
                       (let event_summary = fingerprint username ooo_pattern;
                            today = now_local_date en
                        in if weekday today = 5 \<or> weekday today = 6
                           then (Inr (), console_print (OOOWeekend username) w1)
                           else
                             (case ooo_today_loop en event_summary today team_events of
                                Inl e \<Rightarrow> (Inl e, w1)
                              | Inr True \<Rightarrow> (Inr (), console_print (OOOToday username) w1)
                              | Inr False \<Rightarrow>
                                  (Inr (), console_print (NotOOOToday username) w1))))))"

section \<open>check\_out\_of\_office\<close>

text \<open>
  The end date shown for one event: a day is taken off when start and end differ.
  \<open>None - timedelta\<close> raises TypeError, and \<open>strftime\<close> on None raises
  AttributeError; the start is formatted first.
\<close>

definition display_range :: "date option \<Rightarrow> date option \<Rightarrow> exn + date \<times> date" where
  "display_range start end_d =
     (case (if start \<noteq> end_d
            then (case end_d of
                    None \<Rightarrow> Inl (TypeError ''-'')
                  | Some e \<Rightarrow> map_sum id Some (date_add_days e (- 1)))
            else Inr end_d) of
        Inl e \<Rightarrow> Inl e
      | Inr adjusted_end_date \<Rightarrow>
          (case start of
             None \<Rightarrow> Inl (AttributeError ''strftime'')
           | Some s \<Rightarrow>
               (case adjusted_end_date of
                  None \<Rightarrow> Inl (AttributeError ''strftime'')
                | Some a \<Rightarrow> Inr (s, a))))"

definition get_or_empty :: "string option \<Rightarrow> string" where
  "get_or_empty v = (case v of None \<Rightarrow> [] | Some s \<Rightarrow> s)"

fun check_loop ::
  "env \<Rightarrow> string option \<Rightarrow> event list \<Rightarrow> 'b world \<Rightarrow> (exn + unit) \<times> 'b world" where
  "check_loop en team_calendar_name [] w = (Inr (), w)"
| "check_loop en team_calendar_name (ev # evs) w =
     (case get_date_from_event en ev Start of
        Inl e \<Rightarrow> (Inl e, w)
      | Inr start \<Rightarrow>
          (case get_date_from_event en ev End of
             Inl e \<Rightarrow> (Inl e, w)
           | Inr end_d \<Rightarrow>
               (case display_range start end_d of
                  Inl e \<Rightarrow> (Inl e, w)
                | Inr (start_str, end_str) \<Rightarrow>
                    check_loop en team_calendar_name evs
                      (console_print
                         (EventLine start_str end_str (get_or_empty (ev_summary ev))
                            (get_or_empty (ev_id ev)) (get_or_empty (ev_eventType ev))
                            team_calendar_name) w))))"

definition check_out_of_office ::
  "'b service \<Rightarrow> config \<Rightarrow> env \<Rightarrow> int \<Rightarrow> 'b world \<Rightarrow> (exn + unit) \<times> 'b world" where
  "check_out_of_office svc cfg en max_results w =
     (let team_calendar_name = get_default_config cfg ''default_team_calendar''
      in case get_upcoming_ooo_events svc cfg en team_calendar_name max_results w of
           (Inl e, w1) \<Rightarrow> (Inl e, w1)
         | (Inr team_events, w1) \<Rightarrow>
             if team_events = []
             then (Inr (), console_print NoUpcoming w1)
             else check_loop en team_calendar_name team_events w1)"

section \<open>disable\_out\_of\_office\<close>

text \<open>
  The loop over the fetched events.  After a delete that succeeds the loop goes on
  to the next event; only the \<open>except\<close> branch returns, and it returns from the
  method, which can only happen when \<open>events\<close> is not empty, so the final
  \<open>if not events\<close> would not have printed either.
\<close>

fun disable_loop ::
  "'b service \<Rightarrow> string option \<Rightarrow> string \<Rightarrow> string option \<Rightarrow> string \<Rightarrow> event list
     \<Rightarrow> 'b world \<Rightarrow> 'b world" where
  "disable_loop svc calendar_id username team_calendar_name event_summary [] w = w"
| "disable_loop svc calendar_id username team_calendar_name event_summary (ev # evs) w =
     (if summary_equals event_summary ev
      then
        (case ev_id ev of
           None \<Rightarrow> console_print (ErrorExn (KeyError ''id'')) w
         | Some i \<Rightarrow>
             (case api_events_delete svc calendar_id i w of
                (Inl e, w1) \<Rightarrow> console_print (ErrorExn e) w1
              | (Inr u, w1) \<Rightarrow>
                  disable_loop svc calendar_id username team_calendar_name event_summary evs
                    (console_print (DisableSuccess username team_calendar_name) w1)))
      else disable_loop svc calendar_id username team_calendar_name event_summary evs w)"

definition disable_out_of_office ::
  "'b service \<Rightarrow> config \<Rightarrow> env \<Rightarrow> 'b world \<Rightarrow> (exn + unit) \<times> 'b world" where
  "disable_out_of_office svc cfg en w =
     (let team_calendar_name = get_default_config cfg ''default_team_calendar''
      in case config_username cfg of
           Inl e \<Rightarrow> (Inl e, w)
         | Inr username \<Rightarrow>
             (case config_ooo_pattern cfg of
                Inl e \<Rightarrow> (Inl e, w)
              | Inr ooo_pattern \<Rightarrow>
                  (let event_summary = fingerprint username ooo_pattern
                   in case get_calendar_id_by_name svc team_calendar_name w of
                        (calendar_id, w1) \<Rightarrow>
                          (case get_upcoming_ooo_events svc cfg en team_calendar_name 100 w1 of
                             (Inl e, w2) \<Rightarrow> (Inl e, w2)
                           | (Inr events, w2) \<Rightarrow>
                               (let w3 = disable_loop svc calendar_id username team_calendar_name
                                           event_summary events w2
                                in if events = []
                                   then (Inr (), console_print
                                                   (DisableNotFound username team_calendar_name) w3)
                                   else (Inr (), w3))))))"

section \<open>Reading the call log\<close>

text \<open>The calls issued between two worlds of one run, the log being append-only.\<close>

definition issued :: "'b world \<Rightarrow> 'b world \<Rightarrow> api_call list" where
  "issued w w' = drop (length (calls w)) (calls w')"

fun is_read :: "api_call \<Rightarrow> bool" where
  "is_read (CalendarsGet n) = True"
| "is_read CalendarListList = True"
| "is_read (EventsList r) = True"
| "is_read (EventsInsert c b) = False"
| "is_read (EventsDelete c i) = False"


fun is_insert :: "api_call \<Rightarrow> bool" where
  "is_insert (EventsInsert c b) = True"
| "is_insert c = False"

fun is_delete :: "api_call \<Rightarrow> bool" where
  "is_delete (EventsDelete c i) = True"
| "is_delete c = False"

section \<open>An in-memory backend\<close>

text \<open>
  A backend that keeps its calendars and events in lists and answers the five
  calls of the service interface: \<open>calendars().get\<close> finds a calendar by its
  identifier, \<open>events().list\<close> returns the events of the calendar that overlap
  the window and whose summary contains the query text, \<open>insert\<close> assigns a fresh
  identifier, \<open>delete\<close> removes by identifier.  It is the backend the operations
  are run against on concrete inputs.
\<close>

record mem_backend =
  mb_calendars :: "calendar list"
  mb_events :: "(string \<times> event) list"
  mb_counter :: nat

definition time_instant :: "time_info option \<Rightarrow> instant option" where
  "time_instant ti =
     (case ti of
        None \<Rightarrow> None
      | Some i \<Rightarrow>
          (case ti_dateTime i of
             Some t \<Rightarrow> Some t
           | None \<Rightarrow> map_option midnight_utc (ti_date i)))"

definition in_window :: "list_request \<Rightarrow> event \<Rightarrow> bool" where
  "in_window req ev =
     ((case time_instant (ev_end ev) of None \<Rightarrow> True | Some t \<Rightarrow> lr_timeMin req < t)
      \<and> (case time_instant (ev_start ev) of None \<Rightarrow> True | Some t \<Rightarrow> t < lr_timeMax req))"

definition known_calendar :: "mem_backend \<Rightarrow> string \<Rightarrow> bool" where
  "known_calendar b cid = list_ex (\<lambda>c. cal_id c = Some cid) (mb_calendars b)"

definition mem_calendars_get ::
  "mem_backend \<Rightarrow> string option \<Rightarrow> (exn + calendar option) \<times> mem_backend" where
  "mem_calendars_get b name =
     (case name of
        None \<Rightarrow> (Inl (TypeError ''calendarId''), b)
      | Some n \<Rightarrow>
          (case find (\<lambda>c. cal_id c = Some n) (mb_calendars b) of
             None \<Rightarrow> (Inl (HttpError ''404''), b)
           | Some c \<Rightarrow> (Inr (Some c), b)))"

definition mem_events_list ::
  "mem_backend \<Rightarrow> list_request \<Rightarrow> (exn + event list option) \<times> mem_backend" where
  "mem_events_list b req =
     (case lr_calendarId req of
        None \<Rightarrow> (Inl (TypeError ''calendarId''), b)
      | Some cid \<Rightarrow>
          if \<not> known_calendar b cid then (Inl (HttpError ''404''), b)
          else
            (let found = map snd (filter (\<lambda>(c, ev). c = cid \<and> in_window req ev
                                            \<and> summary_contains (lr_q req) ev) (mb_events b))
             in (Inr (Some (case lr_maxResults req of
                              None \<Rightarrow> found
                            | Some m \<Rightarrow> take (nat m) found)), b)))"

definition mem_events_insert ::
  "mem_backend \<Rightarrow> string option \<Rightarrow> event \<Rightarrow> (exn + event) \<times> mem_backend" where
  "mem_events_insert b calendar_id body =
     (case calendar_id of
        None \<Rightarrow> (Inl (TypeError ''calendarId''), b)
      | Some cid \<Rightarrow>
          if \<not> known_calendar b cid then (Inl (HttpError ''404''), b)
          else
            (let created = body\<lparr>ev_id := Some (CHR ''e'' # replicate (mb_counter b) CHR ''1'')\<rparr>
             in (Inr created,
                 b\<lparr>mb_events := mb_events b @ [(cid, created)],
                   mb_counter := Suc (mb_counter b)\<rparr>)))"

definition mem_events_delete ::
  "mem_backend \<Rightarrow> string option \<Rightarrow> string \<Rightarrow> (exn + unit) \<times> mem_backend" where
  "mem_events_delete b calendar_id event_id =
     (case calendar_id of
        None \<Rightarrow> (Inl (TypeError ''calendarId''), b)
      | Some cid \<Rightarrow>
          if list_ex (\<lambda>(c, ev). c = cid \<and> ev_id ev = Some event_id) (mb_events b)
          then (Inr (),
                b\<lparr>mb_events :=
                    filter (\<lambda>(c, ev). \<not> (c = cid \<and> ev_id ev = Some event_id)) (mb_events b)\<rparr>)
          else (Inl (HttpError ''404''), b))"

definition mem_service :: "mem_backend service" where
  "mem_service =
     \<lparr>calendars_get = mem_calendars_get,
      calendarList_list = (\<lambda>b. (Inr (Some (mb_calendars b)), b)),
      events_list = mem_events_list,
      events_insert = mem_events_insert,
      events_delete = mem_events_delete\<rparr>"

text \<open>The same backend with a calendar listing, or with deletes, that fail.\<close>

definition listing_down_service :: "mem_backend service" where
  "listing_down_service =
     mem_service\<lparr>calendarList_list := (\<lambda>b. (Inl (HttpError ''503''), b))\<rparr>"

definition delete_down_service :: "mem_backend service" where
  "delete_down_service =
     mem_service\<lparr>events_delete := (\<lambda>b c i. (Inl (HttpError ''500''), b))\<rparr>"

subsection \<open>Concrete inputs\<close>

definition team_cal :: calendar where
  "team_cal = \<lparr>cal_id = Some ''team-id'', cal_summary = Some ''Team''\<rparr>"

definition other_cal :: calendar where
  "other_cal = \<lparr>cal_id = Some ''other-id'', cal_summary = Some ''Other''\<rparr>"

definition cfg0 :: config where
  "cfg0 = [''default_team_calendar'' \<mapsto> ''Team'',
           ''timezone'' \<mapsto> ''Europe/Madrid'',
           ''default_personal_calendar'' \<mapsto> ''alice@example.com'',
           ''ooo_pattern'' \<mapsto> '' OOO '']"

definition all_day :: "date \<Rightarrow> time_info" where
  "all_day d = \<lparr>ti_dateTime = None, ti_date = Some d, ti_timeZone = None\<rparr>"

definition stored_event :: "string \<Rightarrow> string \<Rightarrow> date \<Rightarrow> date \<Rightarrow> event" where
  "stored_event i summary start_d end_d =
     \<lparr>ev_id = Some i,
      ev_summary = Some summary,
      ev_description = Some ''Out of Office'',
      ev_start = Some (all_day start_d),
      ev_end = Some (all_day end_d),
      ev_transparency = Some ''opaque'',
      ev_visibility = Some ''default'',
      ev_status = Some ''confirmed'',
      ev_eventType = Some ''default''\<rparr>"

definition mem_world ::
  "(string \<times> event) list \<Rightarrow> nat \<Rightarrow> api_call list \<Rightarrow> message list \<Rightarrow> mem_backend world" where
  "mem_world evs k cs out =
     \<lparr>backend = \<lparr>mb_calendars = [other_cal, team_cal], mb_events = evs, mb_counter = k\<rparr>,
      calls = cs,
      console = out\<rparr>"

definition world0 :: "(string \<times> event) list \<Rightarrow> mem_backend world" where
  "world0 evs = mem_world evs 0 [] []"

definition tentative_events :: "(string \<times> event) list" where
  "tentative_events =
     [(''team-id'',
       stored_event ''t1'' ''alice OOO (tentative)'' (ymd2ord 2024 1 10) (ymd2ord 2024 1 13))]"

text \<open>
  The time-zone names the examples use: \<open>UTC-5\<close> is five hours behind UTC, and a
  name the database does not know gives None.
\<close>

definition gettz0 :: "string \<Rightarrow> tzinfo option" where
  "gettz0 zname =
     (if zname = ''UTC'' then Some (\<lambda>t. 0)
      else if zname = ''UTC-5'' then Some (\<lambda>t. - 18000)
      else None)"

definition env_on :: "date \<Rightarrow> env" where
  "env_on today =
     \<lparr>now_local_date = today, utcnow_date = today, gettz = gettz0, system_tz = (\<lambda>t. 3600)\<rparr>"




definition two_matching_events :: "(string \<times> event) list" where
  "two_matching_events =
     [(''team-id'', stored_event ''a'' ''alice OOO'' (ymd2ord 2024 1 10) (ymd2ord 2024 1 13)),
      (''team-id'', stored_event ''b'' ''alice OOO'' (ymd2ord 2024 1 20) (ymd2ord 2024 1 23))]"



section \<open>The call log only grows, and lookups only read\<close>

lemma calendar_fallback_calls:
  "calls (snd (calendar_fallback svc n w)) = calls w @ [CalendarListList]"
  by (simp add: calendar_fallback_def api_calendarList_list_def console_print_def
      split: prod.splits sum.splits option.splits)

lemma get_calendar_id_by_name_calls:
  "calls (snd (get_calendar_id_by_name svc n w)) = calls w @ [CalendarsGet n]
   \<or> calls (snd (get_calendar_id_by_name svc n w)) = calls w @ [CalendarsGet n, CalendarListList]"
  by (simp add: get_calendar_id_by_name_def api_calendars_get_def calendar_fallback_calls
      console_print_def split: prod.splits sum.splits option.splits)

lemma get_calendar_id_by_name_issued:
  "\<exists>cs. calls (snd (get_calendar_id_by_name svc n w)) = calls w @ cs
        \<and> set cs \<subseteq> {CalendarsGet n, CalendarListList}"
  using get_calendar_id_by_name_calls [of svc n w] by auto

lemma get_upcoming_ooo_events_issued:
  "\<exists>cs. calls (snd (get_upcoming_ooo_events svc cfg en n m w)) = calls w @ cs
        \<and> (\<forall>c \<in> set cs. c = CalendarsGet n \<or> c = CalendarListList
              \<or> (\<exists>req u p. c = EventsList req \<and> config_username cfg = Inr u
                    \<and> config_ooo_pattern cfg = Inr p \<and> lr_q req = fingerprint u p))"
proof -
  obtain cid w1 where r: "get_calendar_id_by_name svc n w = (cid, w1)"
    by (cases "get_calendar_id_by_name svc n w")
  from get_calendar_id_by_name_issued [of svc n w] r
  obtain cs where cs: "calls w1 = calls w @ cs" "set cs \<subseteq> {CalendarsGet n, CalendarListList}"
    by auto
  show ?thesis
    using r cs
    by (auto simp add: get_upcoming_ooo_events_def api_events_list_def console_print_def
        upcoming_request_def Let_def
        split: prod.splits sum.splits option.splits exn.splits)
qed

lemma disable_loop_no_match:
  "\<forall>ev \<in> set evs. \<not> summary_equals fp ev \<Longrightarrow> disable_loop svc cid u n fp evs w = w"
  by (induction evs arbitrary: w) auto


section \<open>Nothing to disable\<close>

text \<open>
  Claim C8.  When the fetch of upcoming events returns no event, \<open>disable\<close> prints the
  "no Out of Office event found" line and issues no delete call; and for every fetched
  list in which no event's summary equals the fingerprint, no delete call is issued.
\<close>

theorem disable_not_found:
  fixes svc :: "'b service"
  assumes "config_username cfg = Inr u" and "config_ooo_pattern cfg = Inr p"
    and "get_calendar_id_by_name svc (get_default_config cfg ''default_team_calendar'') w = (cid, w1)"
    and "get_upcoming_ooo_events svc cfg en (get_default_config cfg ''default_team_calendar'') 100 w1
           = (Inr evs, w2)"
  shows "(evs = [] \<longrightarrow>
            disable_out_of_office svc cfg en w
              = (Inr (), console_print
                           (DisableNotFound u (get_default_config cfg ''default_team_calendar'')) w2)
            \<and> filter is_delete (issued w (snd (disable_out_of_office svc cfg en w))) = [])
       \<and> ((\<forall>ev \<in> set evs. ev_summary ev \<noteq> Some (fingerprint u p)) \<longrightarrow>
            filter is_delete (issued w (snd (disable_out_of_office svc cfg en w))) = [])"
proof -
  let ?n = "get_default_config cfg ''default_team_calendar''"
  from get_calendar_id_by_name_issued [of svc ?n w] assms(3)
  obtain cs1 where cs1: "calls w1 = calls w @ cs1" "set cs1 \<subseteq> {CalendarsGet ?n, CalendarListList}"
    by auto
  from get_upcoming_ooo_events_issued [of svc cfg en ?n 100 w1] assms(4)
  obtain cs2 where cs2: "calls w2 = calls w1 @ cs2"
    "\<forall>c \<in> set cs2. c = CalendarsGet ?n \<or> c = CalendarListList
        \<or> (\<exists>req u p. c = EventsList req \<and> config_username cfg = Inr u
              \<and> config_ooo_pattern cfg = Inr p \<and> lr_q req = fingerprint u p)"
    by auto
  have nodel: "filter is_delete (cs1 @ cs2) = []"
    using cs1(2) cs2(2) by (auto simp add: filter_empty_conv)
  have iss: "issued w w2 = cs1 @ cs2"
    using cs1(1) cs2(1) by (simp add: issued_def)
  have nomatch: "disable_out_of_office svc cfg en w
                   = (Inr (), if evs = [] then console_print (DisableNotFound u ?n) w2 else w2)"
    if "\<forall>ev \<in> set evs. ev_summary ev \<noteq> Some (fingerprint u p)"
  proof -
    from that have "\<forall>ev \<in> set evs. \<not> summary_equals (fingerprint u p) ev"
      by (simp add: summary_equals_def)
    then have "disable_loop svc cid u ?n (fingerprint u p) evs w2 = w2"
      by (rule disable_loop_no_match)
    with assms show ?thesis
      by (simp add: disable_out_of_office_def Let_def)
  qed
  have "filter is_delete (issued w (snd (disable_out_of_office svc cfg en w))) = []"
    if "\<forall>ev \<in> set evs. ev_summary ev \<noteq> Some (fingerprint u p)"
    using nomatch [OF that] nodel iss by (simp add: issued_def console_print_def)
  moreover have "evs = [] \<longrightarrow> disable_out_of_office svc cfg en w
                   = (Inr (), console_print (DisableNotFound u ?n) w2)"
    using nomatch by auto
  ultimately show ?thesis by auto
qed

subsection \<open>Running the operations on the in-memory backend\<close>

lemmas date_defs = ymd2ord_def days_before_year_def days_before_month_def DAYS_BEFORE_MONTH_def
  DAYS_IN_MONTH_def is_leap_def last_day_next_month_def replace_day1_def ord2ymd_def
  date_add_days_def MINORD_def MAXORD_def weekday_def midnight_utc_def end_of_day_utc_def
  astimezone_date_def

lemmas string_defs = split_at_0_def strip_def is_space_def fingerprint_def

lemmas config_defs = get_default_config_def config_username_def config_ooo_pattern_def cfg0_def

lemmas api_defs = api_calendars_get_def api_calendarList_list_def api_events_list_def
  api_events_insert_def api_events_delete_def console_print_def truthy_def

lemmas mem_defs = mem_service_def mem_calendars_get_def mem_events_list_def mem_events_insert_def
  mem_events_delete_def known_calendar_def in_window_def time_instant_def team_cal_def
  other_cal_def world0_def mem_world_def env_on_def gettz0_def all_day_def stored_event_def
  listing_down_service_def delete_down_service_def

lemmas op_defs = get_calendar_id_by_name_def calendar_fallback_def get_upcoming_ooo_events_def
  upcoming_request_def exists_request_def event_exists_def summary_equals_def
  summary_contains_def ooo_event_def create_ooo_event_def enable_out_of_office_def
  get_date_from_event_def event_time_def key_name_def in_range_def is_ooo_today_def
  display_range_def get_or_empty_def check_out_of_office_def disable_out_of_office_def
  issued_def

lemma cfg0_username: "config_username cfg0 = Inr ''alice''"
  by (simp add: config_defs string_defs)

lemma cfg0_pattern: "config_ooo_pattern cfg0 = Inr ''OOO''"
  by (simp add: config_defs string_defs)

lemma cfg0_calendar: "get_default_config cfg0 ''default_team_calendar'' = Some ''Team''"
  by (simp add: config_defs)



lemma ymd_2024_1_9: "ymd2ord 2024 1 9 = 738894"
  by (simp add: date_defs)

lemma last_day_738894: "last_day_next_month 738894 = Inr 738945"
  by (simp add: date_defs Let_def)

lemma mem_resolve_team:
  "get_calendar_id_by_name mem_service (Some ''Team'') (mem_world evs k cs out)
     = (Some ''team-id'', mem_world evs k (cs @ [CalendarsGet (Some ''Team''), CalendarListList]) out)"
  by (simp add: get_calendar_id_by_name_def calendar_fallback_def api_defs mem_defs)

lemma mem_upcoming:
  assumes "last_day_next_month d = Inr l"
  shows "get_upcoming_ooo_events mem_service cfg0 (env_on d) (Some ''Team'') m (mem_world evs k cs out)
     = (Inr (take (nat m) (map snd (filter (\<lambda>(c, ev). c = ''team-id''
               \<and> in_window (upcoming_request (Some ''team-id'') d l m ''alice OOO'') ev
               \<and> summary_contains ''alice OOO'' ev) evs))),
        mem_world evs k (cs @ [CalendarsGet (Some ''Team''), CalendarListList,
                  EventsList (upcoming_request (Some ''team-id'') d l m ''alice OOO'')]) out)"
  unfolding get_upcoming_ooo_events_def mem_resolve_team
  by (simp add: assms cfg0_username cfg0_pattern fingerprint_def truthy_def api_events_list_def
      mem_service_def mem_events_list_def known_calendar_def mem_world_def team_cal_def other_cal_def
      env_on_def upcoming_request_def Let_def)


theorem disable_not_found_witness:
  "disable_out_of_office mem_service cfg0 (env_on (ymd2ord 2024 1 9)) (world0 [])
     = (Inr (), console_print (DisableNotFound ''alice'' (Some ''Team''))
          (mem_world [] 0
             [CalendarsGet (Some ''Team''), CalendarListList,
              CalendarsGet (Some ''Team''), CalendarListList,
              EventsList (upcoming_request (Some ''team-id'') 738894 738945 100 ''alice OOO'')] []))
   \<and> filter is_delete (issued (world0 [])
        (snd (disable_out_of_office mem_service cfg0 (env_on (ymd2ord 2024 1 9)) (world0 [])))) = []
   \<and> filter is_delete (issued (world0 tentative_events)
        (snd (disable_out_of_office mem_service cfg0 (env_on (ymd2ord 2024 1 9))
               (world0 tentative_events)))) = []"
proof -
  let ?n = "get_default_config cfg0 ''default_team_calendar''"
  let ?cs1 = "[CalendarsGet (Some ''Team''), CalendarListList]"
  let ?cs2 = "?cs1 @ [CalendarsGet (Some ''Team''), CalendarListList,
                EventsList (upcoming_request (Some ''team-id'') 738894 738945 100 ''alice OOO'')]"
  have r: "get_calendar_id_by_name mem_service ?n (world0 evs)
              = (Some ''team-id'', mem_world evs 0 ?cs1 [])" for evs
    by (simp add: cfg0_calendar world0_def mem_resolve_team)
  have f0: "get_upcoming_ooo_events mem_service cfg0 (env_on (ymd2ord 2024 1 9)) ?n 100
              (mem_world [] 0 ?cs1 []) = (Inr [], mem_world [] 0 ?cs2 [])"
    by (simp add: cfg0_calendar ymd_2024_1_9 mem_upcoming [OF last_day_738894])
  have f1: "get_upcoming_ooo_events mem_service cfg0 (env_on (ymd2ord 2024 1 9)) ?n 100
              (mem_world tentative_events 0 ?cs1 [])
            = (Inr (map snd tentative_events), mem_world tentative_events 0 ?cs2 [])"
    by (simp add: cfg0_calendar ymd_2024_1_9 mem_upcoming [OF last_day_738894]
        tentative_events_def in_window_def time_instant_def stored_event_def all_day_def
        upcoming_request_def summary_contains_def date_defs)
  have nm: "\<forall>ev \<in> set (map snd tentative_events).
              ev_summary ev \<noteq> Some (fingerprint ''alice'' ''OOO'')"
    by (simp add: tentative_events_def stored_event_def fingerprint_def)
  note t0 = disable_not_found [OF cfg0_username cfg0_pattern r f0]
  note t1 = disable_not_found [OF cfg0_username cfg0_pattern r f1]
  from t0 have a: "disable_out_of_office mem_service cfg0 (env_on (ymd2ord 2024 1 9)) (world0 [])
             = (Inr (), console_print (DisableNotFound ''alice'' ?n) (mem_world [] 0 ?cs2 []))"
    by blast
  from t0 have b: "filter is_delete (issued (world0 [])
              (snd (disable_out_of_office mem_service cfg0 (env_on (ymd2ord 2024 1 9)) (world0 []))))
            = []"
    by blast
  from t1 nm have c: "filter is_delete (issued (world0 tentative_events)
              (snd (disable_out_of_office mem_service cfg0 (env_on (ymd2ord 2024 1 9))
                     (world0 tentative_events)))) = []"
    by blast
  from a have a': "disable_out_of_office mem_service cfg0 (env_on (ymd2ord 2024 1 9)) (world0 [])
     = (Inr (), console_print (DisableNotFound ''alice'' (Some ''Team''))
          (mem_world [] 0
             [CalendarsGet (Some ''Team''), CalendarListList,
              CalendarsGet (Some ''Team''), CalendarListList,
              EventsList (upcoming_request (Some ''team-id'') 738894 738945 100 ''alice OOO'')] []))"
    by (simp add: cfg0_calendar)
  from a' b c show ?thesis by blast
qed


section \<open>Resolving a calendar name\<close>

lemma scan_calendars_first:
  "\<forall>c' \<in> set pre. \<exists>s. cal_summary c' = Some s \<and> s \<noteq> n \<Longrightarrow>
   cal_summary c = Some n \<Longrightarrow> cal_id c = Some i \<Longrightarrow>
   scan_calendars (Some n) (pre @ c # post) = Inr (Some i)"
  by (induction pre) auto

lemma scan_calendars_none:
  "\<forall>c \<in> set cals. cal_summary c \<noteq> name \<Longrightarrow> scan_calendars name cals \<noteq> Inr (Some i)"
  by (induction cals) (auto split: option.splits)

lemma calendar_fallback_first:
  assumes "calendarList_list svc (backend w) = (Inr (Some (pre @ c # post)), b)"
    and "\<forall>c' \<in> set pre. \<exists>s. cal_summary c' = Some s \<and> s \<noteq> n"
    and "cal_summary c = Some n" and "cal_id c = Some i"
  shows "fst (calendar_fallback svc (Some n) w) = Some i"
  using assms(1) scan_calendars_first [OF assms(2,3,4), of post]
  by (simp add: calendar_fallback_def api_calendarList_list_def)

lemma calendar_fallback_none:
  assumes "case calendarList_list svc (backend w) of
             (Inr (Some cals), b) \<Rightarrow> \<forall>c \<in> set cals. cal_summary c \<noteq> name
           | _ \<Rightarrow> True"
  shows "fst (calendar_fallback svc name w) = None"
proof (cases "calendarList_list svc (backend w)")
  case (Pair r b)
  show ?thesis
  proof (cases r)
    case (Inl e)
    with Pair show ?thesis by (simp add: calendar_fallback_def api_calendarList_list_def)
  next
    case (Inr items)
    show ?thesis
    proof (cases items)
      case None
      with Pair Inr show ?thesis by (simp add: calendar_fallback_def api_calendarList_list_def)
    next
      case (Some cals)
      with Pair Inr assms have "\<forall>c \<in> set cals. cal_summary c \<noteq> name" by simp
      then have "\<And>i. scan_calendars name cals \<noteq> Inr (Some i)" by (rule scan_calendars_none)
      with Pair Inr Some show ?thesis
        by (auto simp add: calendar_fallback_def api_calendarList_list_def
            split: sum.splits option.splits)
    qed
  qed
qed

text \<open>
  Claim C9.  Calendar resolution gives the identifier \<open>i\<close> of a calendar \<open>c\<close> both for
  its identifier (the direct fetch answers the calendar) and for its display name \<open>n\<close>
  (the direct fetch fails and \<open>c\<close> is the first listed calendar whose display name is
  \<open>n\<close>); when the direct fetch fails and the listing raises, has no items, or lists no
  calendar with that display name, the result is None.
\<close>

theorem calendar_resolution:
  fixes svc :: "'b service"
  shows
  "(calendars_get svc (backend wa) (Some i) = (Inr (Some c), ba) \<and> cal_id c = Some i
      \<longrightarrow> fst (get_calendar_id_by_name svc (Some i) wa) = Some i)
   \<and> (calendars_get svc (backend wb) (Some n) = (Inl e, bb)
        \<and> calendarList_list svc bb = (Inr (Some (pre @ c # post)), bb')
        \<and> (\<forall>c' \<in> set pre. \<exists>s. cal_summary c' = Some s \<and> s \<noteq> n)
        \<and> cal_summary c = Some n \<and> cal_id c = Some i
      \<longrightarrow> fst (get_calendar_id_by_name svc (Some n) wb) = Some i)
   \<and> (calendars_get svc (backend wc) name = (Inl e', bc)
        \<and> (case calendarList_list svc bc of
              (Inr (Some cals), b) \<Rightarrow> \<forall>c \<in> set cals. cal_summary c \<noteq> name
            | _ \<Rightarrow> True)
      \<longrightarrow> fst (get_calendar_id_by_name svc name wc) = None)"
proof (intro conjI impI)
  assume "calendars_get svc (backend wa) (Some i) = (Inr (Some c), ba) \<and> cal_id c = Some i"
  then show "fst (get_calendar_id_by_name svc (Some i) wa) = Some i"
    by (simp add: get_calendar_id_by_name_def api_calendars_get_def)
next
  assume a: "calendars_get svc (backend wb) (Some n) = (Inl e, bb)
        \<and> calendarList_list svc bb = (Inr (Some (pre @ c # post)), bb')
        \<and> (\<forall>c' \<in> set pre. \<exists>s. cal_summary c' = Some s \<and> s \<noteq> n)
        \<and> cal_summary c = Some n \<and> cal_id c = Some i"
  let ?w1 = "wb\<lparr>backend := bb, calls := calls wb @ [CalendarsGet (Some n)]\<rparr>"
  have "fst (calendar_fallback svc (Some n) ?w1) = Some i"
    using a by (intro calendar_fallback_first [where pre = pre and c = c and post = post and b = bb'])
      simp_all
  with a show "fst (get_calendar_id_by_name svc (Some n) wb) = Some i"
    by (simp add: get_calendar_id_by_name_def api_calendars_get_def)
next
  assume a: "calendars_get svc (backend wc) name = (Inl e', bc)
        \<and> (case calendarList_list svc bc of
              (Inr (Some cals), b) \<Rightarrow> \<forall>c \<in> set cals. cal_summary c \<noteq> name
            | _ \<Rightarrow> True)"
  let ?w1 = "wc\<lparr>backend := bc, calls := calls wc @ [CalendarsGet name]\<rparr>"
  have "fst (calendar_fallback svc name ?w1) = None"
    using a by (intro calendar_fallback_none) simp
  with a show "fst (get_calendar_id_by_name svc name wc) = None"
    by (simp add: get_calendar_id_by_name_def api_calendars_get_def)
qed

theorem calendar_resolution_witness:
  "fst (get_calendar_id_by_name mem_service (Some ''team-id'') (world0 [])) = Some ''team-id''
   \<and> fst (get_calendar_id_by_name mem_service (Some ''Team'') (world0 [])) = Some ''team-id''
   \<and> fst (get_calendar_id_by_name mem_service (Some ''Nope'') (world0 [])) = None
   \<and> fst (get_calendar_id_by_name listing_down_service (Some ''Team'') (world0 [])) = None"
proof -
  let ?b = "backend (world0 [])"
  have g1: "calendars_get mem_service ?b (Some ''team-id'') = (Inr (Some team_cal), ?b)
              \<and> cal_id team_cal = Some ''team-id''"
    by (simp add: mem_defs)
  have g2: "calendars_get mem_service ?b (Some ''Team'') = (Inl (HttpError ''404''), ?b)
        \<and> calendarList_list mem_service ?b = (Inr (Some ([other_cal] @ team_cal # [])), ?b)
        \<and> (\<forall>c' \<in> set [other_cal]. \<exists>s. cal_summary c' = Some s \<and> s \<noteq> ''Team'')
        \<and> cal_summary team_cal = Some ''Team'' \<and> cal_id team_cal = Some ''team-id''"
    by (simp add: mem_defs)
  have g3: "calendars_get mem_service ?b (Some ''Nope'') = (Inl (HttpError ''404''), ?b)
        \<and> (case calendarList_list mem_service ?b of
              (Inr (Some cals), b) \<Rightarrow> \<forall>c \<in> set cals. cal_summary c \<noteq> Some ''Nope''
            | _ \<Rightarrow> True)"
    by (simp add: mem_defs)
  have g4: "calendars_get listing_down_service ?b (Some ''Team'') = (Inl (HttpError ''404''), ?b)
        \<and> (case calendarList_list listing_down_service ?b of
              (Inr (Some cals), b) \<Rightarrow> \<forall>c \<in> set cals. cal_summary c \<noteq> Some ''Team''
            | _ \<Rightarrow> True)"
    by (simp add: mem_defs)
  note t = calendar_resolution [where svc = mem_service and wa = "world0 []" and wb = "world0 []"
      and wc = "world0 []" and i = "''team-id''" and c = team_cal and n = "''Team''"
      and pre = "[other_cal]" and post = "[]" and name = "Some ''Nope''" and ba = ?b and bb = ?b
      and bb' = ?b and bc = ?b and e = "HttpError ''404''" and e' = "HttpError ''404''"]
  note u = calendar_resolution [where svc = listing_down_service and wc = "world0 []"
      and name = "Some ''Team''" and bc = ?b and e' = "HttpError ''404''"]
  from t g1 have a: "fst (get_calendar_id_by_name mem_service (Some ''team-id'') (world0 [])) = Some ''team-id''"
    by blast
  from t g2 have b: "fst (get_calendar_id_by_name mem_service (Some ''Team'') (world0 [])) = Some ''team-id''"
    by blast
  from t g3 have c: "fst (get_calendar_id_by_name mem_service (Some ''Nope'') (world0 [])) = None"
    by blast
  have d: "fst (get_calendar_id_by_name listing_down_service (Some ''Team'') (world0 [])) = None"
    by (rule u [THEN conjunct2, THEN conjunct2, THEN mp, OF g4])
  from a b c d show ?thesis by blast
qed

section \<open>Extracting dates from events\<close>



section \<open>Matching summaries\<close>








section \<open>What disable deletes\<close>



















section \<open>The today-check\<close>

lemma is_ooo_today_world:
  "snd (is_ooo_today svc cfg en tm w)
     = snd (get_upcoming_ooo_events svc cfg en (get_default_config cfg ''default_team_calendar'') 100 w)
   \<or> (\<exists>m. snd (is_ooo_today svc cfg en tm w)
          = console_print m
              (snd (get_upcoming_ooo_events svc cfg en
                      (get_default_config cfg ''default_team_calendar'') 100 w)))"
  by (auto simp add: is_ooo_today_def Let_def
      split: prod.splits sum.splits option.splits bool.splits if_splits)

lemma is_ooo_today_calls:
  "calls (snd (is_ooo_today svc cfg en tm w))
     = calls (snd (get_upcoming_ooo_events svc cfg en
                     (get_default_config cfg ''default_team_calendar'') 100 w))"
  using is_ooo_today_world [of svc cfg en tm w] by (auto simp add: console_print_def)

lemma fingerprint_inj: "fingerprint t p = fingerprint u p \<Longrightarrow> t = u"
  by (simp add: fingerprint_def)


lemma is_ooo_today_member:
  assumes "\<not> (weekday (now_local_date en) = 5 \<or> weekday (now_local_date en) = 6)"
    and "t \<noteq> []" and "config_ooo_pattern cfg = Inr p"
  shows "is_ooo_today svc cfg en (Some t) w
     = (case get_upcoming_ooo_events svc cfg en
               (get_default_config cfg ''default_team_calendar'') 100 w of
          (Inl e, w1) \<Rightarrow> (Inl e, w1)
        | (Inr evs, w1) \<Rightarrow>
            (case ooo_today_loop en (fingerprint t p) (now_local_date en) evs of
               Inl e \<Rightarrow> (Inl e, w1)
             | Inr True \<Rightarrow> (Inr (), console_print (OOOToday t) w1)
             | Inr False \<Rightarrow> (Inr (), console_print (NotOOOToday t) w1)))"
  using assms
  by (auto simp add: is_ooo_today_def Let_def split: prod.splits sum.splits option.splits)



lemma ymd_2024_1_15: "ymd2ord 2024 1 15 = 738900"
  by (simp add: date_defs)


lemma last_day_738900: "last_day_next_month 738900 = Inr 738945"
  by (simp add: date_defs Let_def)




text \<open>
  Claim C6.  Whoever is asked about, every event query that \<open>is_ooo_today\<close> issues
  carries the fingerprint of the configured default person as its text filter, which
  is not the fingerprint of any other user name; and for a named team member on a
  weekday the containment check with the member's fingerprint runs over the list
  that this query returned.
\<close>

theorem today_query_uses_default_fingerprint:
  fixes svc :: "'b service"
  shows
  "(EventsList req \<in> set (issued w (snd (is_ooo_today svc cfg en tm w)))
      \<longrightarrow> (\<exists>u p. config_username cfg = Inr u \<and> config_ooo_pattern cfg = Inr p
                 \<and> lr_q req = fingerprint u p
                 \<and> (\<forall>t. t \<noteq> u \<longrightarrow> lr_q req \<noteq> fingerprint t p)))
   \<and> (\<not> (weekday (now_local_date en) = 5 \<or> weekday (now_local_date en) = 6)
        \<and> t \<noteq> [] \<and> config_ooo_pattern cfg = Inr p
      \<longrightarrow> is_ooo_today svc cfg en (Some t) w
          = (case get_upcoming_ooo_events svc cfg en
                    (get_default_config cfg ''default_team_calendar'') 100 w of
               (Inl e, w1) \<Rightarrow> (Inl e, w1)
             | (Inr evs, w1) \<Rightarrow>
                 (case ooo_today_loop en (fingerprint t p) (now_local_date en) evs of
                    Inl e \<Rightarrow> (Inl e, w1)
                  | Inr True \<Rightarrow> (Inr (), console_print (OOOToday t) w1)
                  | Inr False \<Rightarrow> (Inr (), console_print (NotOOOToday t) w1))))"
proof (intro conjI impI)
  let ?n = "get_default_config cfg ''default_team_calendar''"
  assume a: "EventsList req \<in> set (issued w (snd (is_ooo_today svc cfg en tm w)))"
  from get_upcoming_ooo_events_issued [of svc cfg en ?n 100 w]
  obtain cs where cs: "calls (snd (get_upcoming_ooo_events svc cfg en ?n 100 w)) = calls w @ cs"
    "\<forall>c \<in> set cs. c = CalendarsGet ?n \<or> c = CalendarListList
        \<or> (\<exists>req u p. c = EventsList req \<and> config_username cfg = Inr u
              \<and> config_ooo_pattern cfg = Inr p \<and> lr_q req = fingerprint u p)"
    by blast
  from cs(1) have "issued w (snd (is_ooo_today svc cfg en tm w)) = cs"
    by (simp add: issued_def is_ooo_today_calls)
  with a cs(2) obtain u p where up: "config_username cfg = Inr u" "config_ooo_pattern cfg = Inr p"
    "lr_q req = fingerprint u p"
    by auto
  have "\<forall>t. t \<noteq> u \<longrightarrow> lr_q req \<noteq> fingerprint t p"
    using up(3) fingerprint_inj [of _ p u] by auto
  with up show "\<exists>u p. config_username cfg = Inr u \<and> config_ooo_pattern cfg = Inr p
                 \<and> lr_q req = fingerprint u p
                 \<and> (\<forall>t. t \<noteq> u \<longrightarrow> lr_q req \<noteq> fingerprint t p)"
    by blast
next
  assume "\<not> (weekday (now_local_date en) = 5 \<or> weekday (now_local_date en) = 6)
        \<and> t \<noteq> [] \<and> config_ooo_pattern cfg = Inr p"
  then show "is_ooo_today svc cfg en (Some t) w
          = (case get_upcoming_ooo_events svc cfg en
                    (get_default_config cfg ''default_team_calendar'') 100 w of
               (Inl e, w1) \<Rightarrow> (Inl e, w1)
             | (Inr evs, w1) \<Rightarrow>
                 (case ooo_today_loop en (fingerprint t p) (now_local_date en) evs of
                    Inl e \<Rightarrow> (Inl e, w1)
                  | Inr True \<Rightarrow> (Inr (), console_print (OOOToday t) w1)
                  | Inr False \<Rightarrow> (Inr (), console_print (NotOOOToday t) w1)))"
    using is_ooo_today_member [of en t cfg p svc w] by blast
qed

theorem today_query_uses_default_fingerprint_witness:
  "EventsList (upcoming_request (Some ''team-id'') 738900 738945 100 ''alice OOO'')
     \<in> set (issued (world0 two_matching_events)
              (snd (is_ooo_today mem_service cfg0 (env_on (ymd2ord 2024 1 15)) (Some ''bob'')
                      (world0 two_matching_events))))
   \<and> lr_q (upcoming_request (Some ''team-id'') 738900 738945 100 ''alice OOO'')
       = fingerprint ''alice'' ''OOO''
   \<and> lr_q (upcoming_request (Some ''team-id'') 738900 738945 100 ''alice OOO'')
       \<noteq> fingerprint ''bob'' ''OOO''
   \<and> is_ooo_today mem_service cfg0 (env_on (ymd2ord 2024 1 15)) (Some ''bob'')
        (world0 two_matching_events)
       = (Inr (), console_print (NotOOOToday ''bob'')
            (mem_world two_matching_events 0
               [CalendarsGet (Some ''Team''), CalendarListList,
                EventsList (upcoming_request (Some ''team-id'') 738900 738945 100 ''alice OOO'')]
               []))"
proof -
  let ?en = "env_on (ymd2ord 2024 1 15)"
  let ?W = "world0 two_matching_events"
  let ?R = "upcoming_request (Some ''team-id'') 738900 738945 100 ''alice OOO''"
  let ?b = "stored_event ''b'' ''alice OOO'' (ymd2ord 2024 1 20) (ymd2ord 2024 1 23)"
  let ?W2 = "mem_world two_matching_events 0
               [CalendarsGet (Some ''Team''), CalendarListList, EventsList ?R] []"
  note t = today_query_uses_default_fingerprint [where svc = mem_service and cfg = cfg0
      and en = ?en and tm = "Some ''bob''" and w = ?W and req = ?R and t = "''bob''" and p = "''OOO''"]
  have h2: "\<not> (weekday (now_local_date ?en) = 5 \<or> weekday (now_local_date ?en) = 6)
            \<and> ''bob'' \<noteq> [] \<and> config_ooo_pattern cfg0 = Inr ''OOO''"
    by (simp add: env_on_def date_defs cfg0_pattern)
  have f: "get_upcoming_ooo_events mem_service cfg0 ?en
             (get_default_config cfg0 ''default_team_calendar'') 100 ?W = (Inr [?b], ?W2)"
    by (simp add: cfg0_calendar ymd_2024_1_15 world0_def mem_upcoming [OF last_day_738900]
        two_matching_events_def in_window_def time_instant_def stored_event_def all_day_def
        upcoming_request_def summary_contains_def date_defs)
  have l: "ooo_today_loop ?en (fingerprint ''bob'' ''OOO'') (now_local_date ?en) [?b] = Inr False"
    by (simp add: summary_contains_def stored_event_def fingerprint_def)
  from t [THEN conjunct2, THEN mp, OF h2]
  have run: "is_ooo_today mem_service cfg0 ?en (Some ''bob'') ?W
               = (Inr (), console_print (NotOOOToday ''bob'') ?W2)"
    unfolding f by (simp only: prod.case sum.case l bool.case)
  have m: "EventsList ?R \<in> set (issued ?W (snd (is_ooo_today mem_service cfg0 ?en (Some ''bob'') ?W)))"
    unfolding run by (simp add: issued_def world0_def mem_world_def console_print_def)
  from t [THEN conjunct1, THEN mp, OF m]
  obtain u p where up: "config_username cfg0 = Inr u" "config_ooo_pattern cfg0 = Inr p"
    "lr_q ?R = fingerprint u p" "\<forall>t. t \<noteq> u \<longrightarrow> lr_q ?R \<noteq> fingerprint t p"
    by blast
  from up(1,2) have "u = ''alice''" "p = ''OOO''" by (simp_all add: cfg0_username cfg0_pattern)
  with up(3,4) have q: "lr_q ?R = fingerprint ''alice'' ''OOO''"
    "lr_q ?R \<noteq> fingerprint ''bob'' ''OOO''"
    by simp_all
  from m q run show ?thesis by blast
qed

section \<open>One day past the inclusive end\<close>









lemma ymd_2024_1_10: "ymd2ord 2024 1 10 = 738895"
  by (simp add: date_defs)


section \<open>What enable stores\<close>

lemma event_exists_world:
  "snd (event_exists svc c s e fp w)
     = w\<lparr>backend := snd (events_list svc (backend w) (exists_request c s e fp)),
         calls := calls w @ [EventsList (exists_request c s e fp)]\<rparr>"
  by (simp add: event_exists_def api_events_list_def split: prod.splits sum.splits option.splits)

lemma event_exists_fst:
  "fst (event_exists svc c s e fp w)
     = (case fst (events_list svc (backend w) (exists_request c s e fp)) of
          Inl x \<Rightarrow> Inl x
        | Inr items \<Rightarrow>
            Inr (\<exists>x \<in> set (case items of None \<Rightarrow> [] | Some xs \<Rightarrow> xs). ev_summary x = Some fp))"
  by (auto simp add: event_exists_def api_events_list_def list_ex_iff summary_equals_def
      split: prod.splits sum.splits option.splits)





lemma ymd_2024_1_12: "ymd2ord 2024 1 12 = 738897"
  by (simp add: date_defs)

lemma cfg0_timezone: "get_default_config cfg0 ''timezone'' = Some ''Europe/Madrid''"
  by (simp add: config_defs)






section \<open>Enabling twice\<close>

lemma calendar_fallback_backend:
  assumes "\<forall>b. snd (calendarList_list svc b) = b"
  shows "backend (snd (calendar_fallback svc n w)) = backend w"
  using assms [rule_format, of "backend w"]
  by (auto simp add: calendar_fallback_def api_calendarList_list_def console_print_def
      split: prod.splits sum.splits option.splits)

lemma get_calendar_id_by_name_backend:
  assumes "\<forall>b x. snd (calendars_get svc b x) = b" and "\<forall>b. snd (calendarList_list svc b) = b"
  shows "backend (snd (get_calendar_id_by_name svc n w)) = backend w"
  using assms(1) [rule_format, of "backend w" n] calendar_fallback_backend [OF assms(2)]
  by (auto simp add: get_calendar_id_by_name_def api_calendars_get_def console_print_def
      split: prod.splits sum.splits option.splits)

lemma calendar_fallback_fst_cong:
  "backend w = backend w' \<Longrightarrow> fst (calendar_fallback svc n w) = fst (calendar_fallback svc n w')"
  by (auto simp add: calendar_fallback_def api_calendarList_list_def
      split: prod.splits sum.splits option.splits)

lemma get_calendar_id_by_name_fst_cong:
  assumes "backend w = backend w'"
  shows "fst (get_calendar_id_by_name svc n w) = fst (get_calendar_id_by_name svc n w')"
proof (cases "calendars_get svc (backend w) n")
  case (Pair r b)
  let ?w1 = "w\<lparr>backend := b, calls := calls w @ [CalendarsGet n]\<rparr>"
  let ?w1' = "w'\<lparr>backend := b, calls := calls w' @ [CalendarsGet n]\<rparr>"
  have fb: "fst (calendar_fallback svc n ?w1) = fst (calendar_fallback svc n ?w1')"
    by (rule calendar_fallback_fst_cong) simp
  from Pair assms have Pair': "calendars_get svc (backend w') n = (r, b)" by simp
  show ?thesis
    using Pair Pair' fb
    by (auto simp add: get_calendar_id_by_name_def api_calendars_get_def
        split: sum.splits option.splits)
qed

lemma calendar_fallback_console_Some:
  "fst (calendar_fallback svc n w) = Some i \<Longrightarrow> console (snd (calendar_fallback svc n w)) = console w"
  by (auto simp add: calendar_fallback_def api_calendarList_list_def console_print_def
      split: prod.splits sum.splits option.splits)

lemma get_calendar_id_by_name_console_Some:
  assumes "fst (get_calendar_id_by_name svc n w) = Some i"
  shows "console (snd (get_calendar_id_by_name svc n w)) = console w"
proof (cases "calendars_get svc (backend w) n")
  case (Pair r b)
  let ?w1 = "w\<lparr>backend := b, calls := calls w @ [CalendarsGet n]\<rparr>"
  have fb: "fst (calendar_fallback svc n ?w1) = Some i
            \<Longrightarrow> console (snd (calendar_fallback svc n ?w1)) = console w"
    using calendar_fallback_console_Some [of svc n ?w1 i] by simp
  show ?thesis
    using Pair assms fb
    by (auto simp add: get_calendar_id_by_name_def api_calendars_get_def console_print_def
        split: sum.splits option.splits)
qed

lemma get_calendar_id_by_name_reads:
  "\<exists>cs. calls (snd (get_calendar_id_by_name svc n w)) = calls w @ cs \<and> (\<forall>c \<in> set cs. is_read c)"
proof -
  from get_calendar_id_by_name_issued [of svc n w]
  obtain cs where "calls (snd (get_calendar_id_by_name svc n w)) = calls w @ cs"
    "set cs \<subseteq> {CalendarsGet n, CalendarListList}"
    by blast
  then show ?thesis by (intro exI [of _ cs]) auto
qed

lemma create_ooo_event_run:
  assumes "get_calendar_id_by_name svc n w = (Some cid, wc)" and "cid \<noteq> []"
    and "events_insert svc (backend wc) (Some cid) body = (Inr created, b)"
  shows "create_ooo_event svc n body s e w
     = (Inr (), console_print
                  (case ev_id created of
                     None \<Rightarrow> ErrorExn (KeyError ''id'')
                   | Some i \<Rightarrow> EventCreated i s e n)
                  (wc\<lparr>backend := b, calls := calls wc @ [EventsInsert (Some cid) body]\<rparr>))"
  using assms
  by (simp add: create_ooo_event_def truthy_def api_events_insert_def split: option.splits)

lemma enable_out_of_office_run:
  assumes "config_username cfg = Inr u" and "config_ooo_pattern cfg = Inr p"
    and "date_add_days e 1 = Inr (e + 1)"
    and "get_calendar_id_by_name svc (get_default_config cfg ''default_team_calendar'') w = (c, wa)"
    and "event_exists svc c s (e + 1) (fingerprint u p) wa = (Inr found, wb)"
  shows "enable_out_of_office svc cfg s e w
     = (if found
        then (Inr (), console_print
                        (WarnAlreadyExists s e (get_default_config cfg ''default_team_calendar'')) wb)
        else create_ooo_event svc (get_default_config cfg ''default_team_calendar'')
               (ooo_event (fingerprint u p) s (e + 1) (get_default_config cfg ''timezone''))
               s e wb)"
  using assms by (simp add: enable_out_of_office_def Let_def)

text \<open>
  Claim C2.  Take a backend whose read calls leave its state as it is, on which the
  team calendar resolves before and after the insert, which at first lists no event
  with the fingerprint as summary in the window from \<open>s\<close> to \<open>e + 1\<close>, whose insert
  succeeds, and which afterwards lists an event with that summary for the same query.
  Then \<open>enable\<close> called twice with the same dates creates once and skips once: the
  first call issues exactly one insert and no other mutation; the second issues no
  mutation, leaves the backend as it is and prints the already-exists warning.
\<close>

theorem enable_twice_creates_once:
  fixes svc :: "'b service" and cfg :: config and u p :: string and s e :: date
  defines "n \<equiv> get_default_config cfg ''default_team_calendar''"
    and "fp \<equiv> fingerprint u p"
    and "body \<equiv> ooo_event (fingerprint u p) s (e + 1) (get_default_config cfg ''timezone'')"
  assumes cfg: "config_username cfg = Inr u" "config_ooo_pattern cfg = Inr p"
    and dates: "MINORD \<le> s" "s \<le> e" "e < MAXORD"
    and pure: "\<forall>b x. snd (calendars_get svc b x) = b" "\<forall>b. snd (calendarList_list svc b) = b"
      "\<forall>b r. snd (events_list svc b r) = b"
    and resolves: "fst (get_calendar_id_by_name svc n w) = Some cid" "cid \<noteq> []"
    and fresh: "fst (events_list svc (backend w) (exists_request (Some cid) s (e + 1) fp)) = Inr items"
      "\<forall>x \<in> set (case items of None \<Rightarrow> [] | Some xs \<Rightarrow> xs). ev_summary x \<noteq> Some fp"
    and ins: "events_insert svc (backend w) (Some cid) body = (Inr created, b1)"
    and still: "fst (get_calendar_id_by_name svc n (w\<lparr>backend := b1\<rparr>)) = Some cid"
    and listed: "fst (events_list svc b1 (exists_request (Some cid) s (e + 1) fp)) = Inr (Some items')"
      "\<exists>x \<in> set items'. ev_summary x = Some fp"
  shows "case enable_out_of_office svc cfg s e w of
           (r1, w1) \<Rightarrow>
             (case enable_out_of_office svc cfg s e w1 of
                (r2, w2) \<Rightarrow>
                  r1 = Inr () \<and> r2 = Inr ()
                  \<and> filter (\<lambda>c. \<not> is_read c) (issued w w1) = [EventsInsert (Some cid) body]
                  \<and> filter (\<lambda>c. \<not> is_read c) (issued w1 w2) = []
                  \<and> backend w1 = b1 \<and> backend w2 = b1
                  \<and> console w2 = console w1 @ [WarnAlreadyExists s e n])"
proof -
  have d: "date_add_days e 1 = Inr (e + 1)"
    using dates by (simp add: date_add_days_def)
  note rb = get_calendar_id_by_name_backend [OF pure(1,2)]
  \<comment> \<open>the first call\<close>
  obtain wa where ra: "get_calendar_id_by_name svc n w = (Some cid, wa)"
    using resolves(1) by (cases "get_calendar_id_by_name svc n w") simp
  have ba: "backend wa = backend w" using rb [of n w] ra by simp
  have ca: "console wa = console w"
    using get_calendar_id_by_name_console_Some [OF resolves(1)] ra by simp
  obtain cs1 where cs1: "calls wa = calls w @ cs1" "\<forall>c \<in> set cs1. is_read c"
    using get_calendar_id_by_name_reads [of svc n w] ra by auto
  let ?q = "exists_request (Some cid) s (e + 1) fp"
  define wb where "wb = wa\<lparr>calls := calls wa @ [EventsList ?q]\<rparr>"
  have exa: "event_exists svc (Some cid) s (e + 1) fp wa = (Inr False, wb)"
  proof (rule prod_eqI)
    show "fst (event_exists svc (Some cid) s (e + 1) fp wa) = fst (Inr False, wb)"
      using fresh by (simp add: event_exists_fst ba)
    show "snd (event_exists svc (Some cid) s (e + 1) fp wa) = snd (Inr False, wb)"
      using pure(3) [rule_format, of "backend wa" ?q] by (simp add: event_exists_world wb_def)
  qed
  have bb: "backend wb = backend w" by (simp add: wb_def ba)
  obtain wc where rc: "get_calendar_id_by_name svc n wb = (Some cid, wc)"
    using resolves(1) get_calendar_id_by_name_fst_cong [OF bb, of svc n]
    by (cases "get_calendar_id_by_name svc n wb") simp
  have bc: "backend wc = backend w" using rb [of n wb] rc bb by simp
  have cc: "console wc = console w"
    using get_calendar_id_by_name_console_Some [of svc n wb cid] rc ca by (simp add: wb_def)
  obtain cs3 where cs3: "calls wc = calls wb @ cs3" "\<forall>c \<in> set cs3. is_read c"
    using get_calendar_id_by_name_reads [of svc n wb] rc by auto
  let ?m = "case ev_id created of None \<Rightarrow> ErrorExn (KeyError ''id'')
            | Some i \<Rightarrow> EventCreated i s e n"
  define w1 where "w1 = console_print ?m
                          (wc\<lparr>backend := b1, calls := calls wc @ [EventsInsert (Some cid) body]\<rparr>)"
  have cr: "create_ooo_event svc n body s e wb = (Inr (), w1)"
    unfolding w1_def using rc resolves(2) ins [folded bc]
    by (rule create_ooo_event_run)
  have run1: "enable_out_of_office svc cfg s e w = (Inr (), w1)"
    using enable_out_of_office_run [OF cfg d ra [unfolded n_def] exa [unfolded fp_def]] cr
    by (simp add: n_def body_def)
  have b1: "backend w1 = b1" by (simp add: w1_def console_print_def)
  have calls1: "calls w1 = calls w @ cs1 @ [EventsList ?q] @ cs3 @ [EventsInsert (Some cid) body]"
    by (simp add: w1_def console_print_def cs3(1) wb_def cs1(1))
  have iss1: "filter (\<lambda>c. \<not> is_read c) (issued w w1) = [EventsInsert (Some cid) body]"
    using cs1(2) cs3(2) by (simp add: issued_def calls1)
  \<comment> \<open>the second call\<close>
  have bw: "backend w1 = backend (w\<lparr>backend := b1\<rparr>)" by (simp add: b1)
  obtain we where re: "get_calendar_id_by_name svc n w1 = (Some cid, we)"
    using still get_calendar_id_by_name_fst_cong [OF bw, of svc n]
    by (cases "get_calendar_id_by_name svc n w1") simp
  have be: "backend we = b1" using rb [of n w1] re b1 by simp
  have ce: "console we = console w1"
    using get_calendar_id_by_name_console_Some [of svc n w1 cid] re by simp
  obtain cs5 where cs5: "calls we = calls w1 @ cs5" "\<forall>c \<in> set cs5. is_read c"
    using get_calendar_id_by_name_reads [of svc n w1] re by auto
  define wf where "wf = we\<lparr>calls := calls we @ [EventsList ?q]\<rparr>"
  have exe: "event_exists svc (Some cid) s (e + 1) fp we = (Inr True, wf)"
  proof (rule prod_eqI)
    show "fst (event_exists svc (Some cid) s (e + 1) fp we) = fst (Inr True, wf)"
      using listed by (simp add: event_exists_fst be)
    show "snd (event_exists svc (Some cid) s (e + 1) fp we) = snd (Inr True, wf)"
      using pure(3) [rule_format, of "backend we" ?q] by (simp add: event_exists_world wf_def)
  qed
  define w2 where "w2 = console_print (WarnAlreadyExists s e n) wf"
  have run2: "enable_out_of_office svc cfg s e w1 = (Inr (), w2)"
    using enable_out_of_office_run [OF cfg d re [unfolded n_def] exe [unfolded fp_def]]
    by (simp add: n_def w2_def)
  have b2: "backend w2 = b1" by (simp add: w2_def wf_def console_print_def be)
  have c2: "console w2 = console w1 @ [WarnAlreadyExists s e n]"
    by (simp add: w2_def wf_def console_print_def ce)
  have calls2: "calls w2 = calls w1 @ cs5 @ [EventsList ?q]"
    by (simp add: w2_def wf_def console_print_def cs5(1))
  have iss2: "filter (\<lambda>c. \<not> is_read c) (issued w1 w2) = []"
    using cs5(2) by (simp add: issued_def calls2)
  from run1 run2 iss1 iss2 b1 b2 c2 show ?thesis by simp
qed

lemma mem_service_reads_pure:
  "\<forall>b x. snd (calendars_get mem_service b x) = b"
  "\<forall>b. snd (calendarList_list mem_service b) = b"
  "\<forall>b r. snd (events_list mem_service b r) = b"
  by (simp_all add: mem_service_def mem_calendars_get_def mem_events_list_def Let_def
      split: option.splits)

theorem enable_twice_creates_once_witness:
  "case enable_out_of_office mem_service cfg0 (ymd2ord 2024 1 10) (ymd2ord 2024 1 12) (world0 []) of
     (r1, w1) \<Rightarrow>
       (case enable_out_of_office mem_service cfg0 (ymd2ord 2024 1 10) (ymd2ord 2024 1 12) w1 of
          (r2, w2) \<Rightarrow>
            r1 = Inr () \<and> r2 = Inr ()
            \<and> filter (\<lambda>c. \<not> is_read c) (issued (world0 []) w1)
                = [EventsInsert (Some ''team-id'')
                     (ooo_event ''alice OOO'' (ymd2ord 2024 1 10) (ymd2ord 2024 1 13)
                        (Some ''Europe/Madrid''))]
            \<and> filter (\<lambda>c. \<not> is_read c) (issued w1 w2) = []
            \<and> backend w2 = backend w1
            \<and> console w2
                = console w1
                  @ [WarnAlreadyExists (ymd2ord 2024 1 10) (ymd2ord 2024 1 12) (Some ''Team'')])"
proof -
  let ?body = "ooo_event (fingerprint ''alice'' ''OOO'') 738895 (738897 + 1)
                 (get_default_config cfg0 ''timezone'')"
  let ?created = "?body\<lparr>ev_id := Some ''e''\<rparr>"
  let ?b1 = "\<lparr>mb_calendars = [other_cal, team_cal], mb_events = [(''team-id'', ?created)],
              mb_counter = 1\<rparr>"
  let ?q = "exists_request (Some ''team-id'') 738895 (738897 + 1) (fingerprint ''alice'' ''OOO'')"
  have dates: "MINORD \<le> (738895 :: int)" "(738895 :: int) \<le> 738897" "(738897 :: int) < MAXORD"
    by (simp_all add: MINORD_def MAXORD_def)
  have resolves: "fst (get_calendar_id_by_name mem_service
                         (get_default_config cfg0 ''default_team_calendar'') (world0 []))
                    = Some ''team-id''" "''team-id'' \<noteq> []"
    by (simp_all add: cfg0_calendar world0_def mem_resolve_team)
  have fresh: "fst (events_list mem_service (backend (world0 [])) ?q) = Inr (Some [])"
    "\<forall>x \<in> set (case Some [] of None \<Rightarrow> [] | Some xs \<Rightarrow> xs).
        ev_summary x \<noteq> Some (fingerprint ''alice'' ''OOO'')"
    by (simp_all add: mem_service_def mem_events_list_def known_calendar_def exists_request_def
        world0_def mem_world_def team_cal_def other_cal_def)
  have ins: "events_insert mem_service (backend (world0 [])) (Some ''team-id'') ?body
               = (Inr ?created, ?b1)"
    by (simp add: mem_service_def mem_events_insert_def known_calendar_def world0_def
        mem_world_def team_cal_def other_cal_def Let_def)
  have w': "(world0 [])\<lparr>backend := ?b1\<rparr> = mem_world [(''team-id'', ?created)] 1 [] []"
    by (simp add: world0_def mem_world_def)
  have still: "fst (get_calendar_id_by_name mem_service
                      (get_default_config cfg0 ''default_team_calendar'')
                      ((world0 [])\<lparr>backend := ?b1\<rparr>)) = Some ''team-id''"
    unfolding w' by (simp add: cfg0_calendar mem_resolve_team)
  have listed: "fst (events_list mem_service ?b1 ?q) = Inr (Some [?created])"
    "\<exists>x \<in> set [?created]. ev_summary x = Some (fingerprint ''alice'' ''OOO'')"
    by (simp_all add: mem_service_def mem_events_list_def known_calendar_def exists_request_def
        team_cal_def other_cal_def in_window_def time_instant_def summary_contains_def
        ooo_event_def fingerprint_def midnight_utc_def)
  note t = enable_twice_creates_once [OF cfg0_username cfg0_pattern dates mem_service_reads_pure
      resolves fresh ins still listed]
  have fp: "fingerprint ''alice'' ''OOO'' = ''alice OOO''" by (simp add: fingerprint_def)
  have d13: "ymd2ord 2024 1 13 = 738897 + 1" by (simp add: date_defs)
  from t show ?thesis
    by (simp add: ymd_2024_1_10 ymd_2024_1_12 d13 fp cfg0_timezone cfg0_calendar
        split: prod.splits)
qed

end
